theory Spec2Isabelle
  imports Complex_Main "HOL-Library.Word" "HOL-Library.List_Lexorder" "HOL-Library.Char_ord"
begin

section \<open>Values shared by the pipeline\<close>

text \<open>
  A Node \<^verbatim>\<open>Buffer\<close> is a sequence of bytes; the code reads only its \<^verbatim>\<open>length\<close>.
  A rejected promise or a thrown exception is a value of type \<open>error\<close>.
\<close>

type_synonym buffer = "8 word list"

datatype error = Error string | TypeError string

text \<open>
  \<^verbatim>\<open>sharp(input)\<close> takes a file path on the first pass and a buffer afterwards.
  The image library is an external collaborator: the chain
  \<^verbatim>\<open>sharp(input).resize({ width }).jpeg({ quality }).toBuffer()\<close> is a parameter of
  the model, a function of the input, the width and the quality that yields the
  encoded bytes or throws.
\<close>

datatype sharp_input = FromPath string | FromBuffer buffer

type_synonym sharp = "sharp_input \<Rightarrow> nat \<Rightarrow> nat \<Rightarrow> error + buffer"

text \<open>
  The calls that reach the outside world are recorded, in order, so that statements
  such as "no second pass occurs" or "no detector is called" can be made.
\<close>

datatype event =
    SharpCall sharp_input nat nat
  | DetectCall buffer
  | FfmpegCall string string
  | WriteFile string

section \<open>resizeAndCompressImage\<close>

text \<open>
  \<^verbatim>\<open>let fileSize = resizedImageBuffer.length / 1024 / 1024;  // Size in MB\<close>

  The division is by a power of two, hence exact on doubles for every buffer length;
  the real quotient is the value the code compares with 5.
\<close>

definition fileSize :: "buffer \<Rightarrow> real" where
  "fileSize buf = real (length buf) / 1024 / 1024"

text \<open>
  \<^verbatim>\<open>
  while (fileSize > 5) {
    resizedImageBuffer = await sharp(resizedImageBuffer)
      .resize({ width: 640 }).jpeg({ quality: 50 }).toBuffer();
    fileSize = resizedImageBuffer.length / 1024 / 1024;
  }\<close>

  The loop has no bound of its own, so it is a partial function: \<open>None\<close> is a run
  that never leaves the loop, \<open>Some (Inl e, calls)\<close> a run in which the library threw
  \<open>e\<close>, \<open>Some (Inr buf, calls)\<close> a run that returned \<open>buf\<close>. The second
  component lists the library calls made, first to last.
\<close>

partial_function (option) compress_loop ::
  "sharp \<Rightarrow> buffer \<Rightarrow> ((error + buffer) \<times> event list) option" where
  "compress_loop sharp buf =
     (if fileSize buf > 5 then
        (case sharp (FromBuffer buf) 640 50 of
           Inl e \<Rightarrow> Some (Inl e, [SharpCall (FromBuffer buf) 640 50])
         | Inr b \<Rightarrow>
             Option.bind (compress_loop sharp b)
               (\<lambda>(r, calls). Some (r, SharpCall (FromBuffer buf) 640 50 # calls)))
      else Some (Inr buf, []))"

text \<open>
  The whole function: the first pass at width 1280 and quality 80, then the loop. The
  \<^verbatim>\<open>catch\<close> block logs and rethrows, so an error of the library is the error of the
  function.
\<close>

definition resizeAndCompressImage ::
  "sharp \<Rightarrow> string \<Rightarrow> ((error + buffer) \<times> event list) option" where
  "resizeAndCompressImage sharp imagePath =
     (case sharp (FromPath imagePath) 1280 80 of
        Inl e \<Rightarrow> Some (Inl e, [SharpCall (FromPath imagePath) 1280 80])
      | Inr b \<Rightarrow>
          Option.bind (compress_loop sharp b)
            (\<lambda>(r, calls). Some (r, SharpCall (FromPath imagePath) 1280 80 # calls)))"

text \<open>
  The buffer in hand after \<open>n\<close> rounds of the loop that started with \<open>buf\<close>: every
  round finds the buffer over the ceiling and re-encodes it. There is none when a round
  finds the buffer within the ceiling or the library throws.
\<close>

fun reencoded :: "sharp \<Rightarrow> nat \<Rightarrow> buffer \<Rightarrow> buffer option" where
  "reencoded sharp 0 buf = Some buf"
| "reencoded sharp (Suc n) buf =
     (if fileSize buf > 5 then
        (case sharp (FromBuffer buf) 640 50 of
           Inl e \<Rightarrow> None
         | Inr b \<Rightarrow> reencoded sharp n b)
      else None)"

section \<open>The detector's response and its normalisation\<close>

text \<open>
  \<^verbatim>\<open>rekognition.detectProtectiveEquipment(params).promise()\<close> resolves to an object
  whose \<^verbatim>\<open>Persons\<close> array holds, per person, a \<^verbatim>\<open>Confidence\<close> and \<^verbatim>\<open>BodyParts\<close>;
  each body part has a \<^verbatim>\<open>Name\<close>, a \<^verbatim>\<open>Confidence\<close> and \<^verbatim>\<open>EquipmentDetections\<close>,
  each of which has a \<^verbatim>\<open>Type\<close> and a \<^verbatim>\<open>Confidence\<close>. A confidence is a number
  or is absent (\<^verbatim>\<open>undefined\<close>, here \<open>None\<close>).
\<close>

record equipment_detection =
  ed_Type :: string
  ed_Confidence :: "real option"

record body_part =
  bp_Name :: string
  bp_Confidence :: "real option"
  bp_EquipmentDetections :: "equipment_detection list"

record person =
  person_Confidence :: "real option"
  person_BodyParts :: "body_part list"

type_synonym detector = "buffer \<Rightarrow> error + person list"

text \<open>
  The values of a per-person record are the index (a number) and strings; the record
  is an object whose keys keep their order of insertion.
\<close>

datatype jsval = JNum nat | JStr string

type_synonym person_result = "(string \<times> jsval) list"

datatype ppe_result = PerPersonResults "person_result list"

subsection \<open>Number.prototype.toFixed(2)\<close>

definition digit :: "nat \<Rightarrow> char" where
  "digit d = ''0123456789'' ! d"

fun decimal :: "nat \<Rightarrow> string" where
  "decimal n = (if n < 10 then [digit n] else decimal (n div 10) @ [digit (n mod 10)])"

declare decimal.simps [simp del]

text \<open>
  \<^verbatim>\<open>x.toFixed(2)\<close> picks the integer \<open>n\<close> with \<open>n / 100\<close> nearest to \<open>x\<close>, the
  larger one on a tie, and prints it with two decimals, after a minus sign when
  \<open>x < 0\<close>. (From \<open>10\<^sup>2\<^sup>1\<close> on JavaScript prints an exponent instead; a confidence
  is a percentage and stays far below.)
\<close>

definition toFixed2 :: "real \<Rightarrow> string" where
  "toFixed2 x =
     (let n = nat \<lfloor>\<bar>x\<bar> * 100 + 1 / 2\<rfloor>
      in (if x < 0 then ''-'' else []) @
         decimal (n div 100) @ ''.'' @ [digit (n mod 100 div 10), digit (n mod 10)])"

subsection \<open>The pieces of a per-person record\<close>

text \<open>\<^verbatim>\<open>flag ? 'true' : 'false'\<close>\<close>

definition bool_str :: "bool \<Rightarrow> string" where
  "bool_str b = (if b then ''true'' else ''false'')"

text \<open>\<^verbatim>\<open>(person.Confidence || 0)\<close>: an absent confidence (and a zero) counts as 0.\<close>

definition or_zero :: "real option \<Rightarrow> real" where
  "or_zero c = (case c of None \<Rightarrow> 0 | Some x \<Rightarrow> x)"

text \<open>
  \<^verbatim>\<open>c ? c.toFixed(2) + '%' : 'N/A'\<close>: \<^verbatim>\<open>undefined\<close> and \<^verbatim>\<open>0\<close> are the falsy
  values a confidence can take.
\<close>

definition confidence_str :: "real option \<Rightarrow> string" where
  "confidence_str c =
     (case c of
        None \<Rightarrow> ''N/A''
      | Some x \<Rightarrow> if x = 0 then ''N/A'' else toFixed2 x @ ''%'')"

text \<open>\<^verbatim>\<open>array[0]\<close> of an array of possibly absent values: absent when the array is empty.\<close>

definition first_elem :: "'a option list \<Rightarrow> 'a option" where
  "first_elem xs = (case xs of [] \<Rightarrow> None | x # _ \<Rightarrow> x)"

text \<open>\<^verbatim>\<open>bp.EquipmentDetections[0]?.Confidence\<close>\<close>

definition first_equipment_confidence :: "body_part \<Rightarrow> real option" where
  "first_equipment_confidence bp =
     (case bp_EquipmentDetections bp of [] \<Rightarrow> None | ed # _ \<Rightarrow> ed_Confidence ed)"

text \<open>
  \<^verbatim>\<open>person.BodyParts.some(bp => bp.Name === name)\<close> and
  \<^verbatim>\<open>person.BodyParts.filter(bp => bp.Name === name)
       .some(bp => bp.EquipmentDetections.some(ed => ed.Type === type))\<close>
\<close>

definition part_detected :: "person \<Rightarrow> string \<Rightarrow> bool" where
  "part_detected p name = list_ex (\<lambda>bp. bp_Name bp = name) (person_BodyParts p)"

definition cover_detected :: "person \<Rightarrow> string \<Rightarrow> string \<Rightarrow> bool" where
  "cover_detected p name type =
     list_ex (\<lambda>bp. list_ex (\<lambda>ed. ed_Type ed = type) (bp_EquipmentDetections bp))
       (filter (\<lambda>bp. bp_Name bp = name) (person_BodyParts p))"

subsection \<open>The per-person record of server.js\<close>

definition personResult :: "nat \<Rightarrow> person \<Rightarrow> person_result" where
  "personResult index p =
     (let personID = index;
          faceDetected = part_detected p ''FACE'';
          faceMaskDetected = cover_detected p ''FACE'' ''FACE_COVER'';
          headDetected = part_detected p ''HEAD'';
          headCoverDetected = cover_detected p ''HEAD'' ''HEAD_COVER'';
          bodyDetected = part_detected p ''BODY'';
          protectiveVestDetected = cover_detected p ''BODY'' ''BODY_COVER'';
          handsDetected = part_detected p ''HAND'';
          glovesDetected = cover_detected p ''HAND'' ''HAND_COVER''
      in [(''Person ID'', JNum personID),
          (''Person detected'', JStr (toFixed2 (or_zero (person_Confidence p)) @ ''%'')),
          (''Face detected'', JStr (bool_str faceDetected)),
          (''Face mask detected'', JStr (bool_str faceMaskDetected)),
          (''Head detected'', JStr (bool_str headDetected)),
          (''Helmet detected'', JStr (bool_str headCoverDetected)),
          (''Protective vest detected'', JStr (bool_str protectiveVestDetected)),
          (''Hands detected'', JStr (bool_str handsDetected)),
          (''Gloves detected'', JStr (bool_str glovesDetected))])"

subsection \<open>The per-person record of the Render variant\<close>


subsection \<open>The per-person record of the variants that report confidences\<close>

definition personResult_conf :: "nat \<Rightarrow> person \<Rightarrow> person_result" where
  "personResult_conf index p =
     (let personID = index;
          faceDetected = part_detected p ''FACE'';
          faceMaskDetected = cover_detected p ''FACE'' ''FACE_COVER'';
          headDetected = part_detected p ''HEAD'';
          headCoverDetected = cover_detected p ''HEAD'' ''HEAD_COVER'';
          bodyDetected = part_detected p ''BODY'';
          protectiveVestDetected = cover_detected p ''BODY'' ''BODY_COVER'';
          headDetectedConfidence =
            first_elem (map bp_Confidence
              (filter (\<lambda>bp. bp_Name bp = ''HEAD'') (person_BodyParts p)));
          headCoverConfidence =
            first_elem (map first_equipment_confidence
              (filter (\<lambda>bp. bp_Name bp = ''HEAD'') (person_BodyParts p)));
          faceMaskConfidence =
            first_elem (map first_equipment_confidence
              (filter (\<lambda>bp. bp_Name bp = ''FACE'') (person_BodyParts p)));
          protectiveVestConfidence =
            first_elem (map first_equipment_confidence
              (filter (\<lambda>bp. bp_Name bp = ''BODY'') (person_BodyParts p)));
          leftHandDetected = part_detected p ''LEFT_HAND'';
          leftHandCoverDetected = cover_detected p ''LEFT_HAND'' ''HAND_COVER'';
          rightHandDetected = part_detected p ''RIGHT_HAND'';
          rightHandCoverDetected = cover_detected p ''RIGHT_HAND'' ''HAND_COVER''
      in [(''Person ID'', JNum personID),
          (''Person detected'', JStr (toFixed2 (or_zero (person_Confidence p)) @ ''%'')),
          (''Face detected'', JStr (bool_str faceDetected)),
          (''Face mask detected'', JStr (bool_str faceMaskDetected)),
          (''Face mask detection confidence'', JStr (confidence_str faceMaskConfidence)),
          (''Head detected'', JStr (bool_str headDetected)),
          (''Helmet detected'', JStr (bool_str headCoverDetected)),
          (''Head detection confidence'', JStr (confidence_str headDetectedConfidence)),
          (''Helmet detection confidence'', JStr (confidence_str headCoverConfidence)),
          (''Protective vest detected'', JStr (bool_str protectiveVestDetected)),
          (''Protective vest detection confidence'',
             JStr (confidence_str protectiveVestConfidence)),
          (''Left hand detected'', JStr (bool_str leftHandDetected)),
          (''Left hand cover detected'', JStr (bool_str leftHandCoverDetected)),
          (''Right hand detected'', JStr (bool_str rightHandDetected)),
          (''Right hand cover detected'', JStr (bool_str rightHandCoverDetected))])"

subsection \<open>analyzePPEInImage\<close>

text \<open>
  The buffer goes to the detector; a rejected call is logged and thrown again; a
  response is turned into one record per person, numbered from 0
  (\<^verbatim>\<open>persons.forEach((person, index) => ...)\<close>).
\<close>

definition analyzePPEInImage ::
  "detector \<Rightarrow> buffer \<Rightarrow> (error + ppe_result) \<times> event list" where
  "analyzePPEInImage detect imageBuffer =
     (case detect imageBuffer of
        Inl e \<Rightarrow> (Inl e, [DetectCall imageBuffer])
      | Inr persons \<Rightarrow>
          (Inr (PerPersonResults
                  (map (\<lambda>(index, p). personResult index p) (enumerate 0 persons))),
           [DetectCall imageBuffer]))"

definition analyzePPEInImage_conf ::
  "detector \<Rightarrow> buffer \<Rightarrow> (error + ppe_result) \<times> event list" where
  "analyzePPEInImage_conf detect imageBuffer =
     (case detect imageBuffer of
        Inl e \<Rightarrow> (Inl e, [DetectCall imageBuffer])
      | Inr persons \<Rightarrow>
          (Inr (PerPersonResults
                  (map (\<lambda>(index, p). personResult_conf index p) (enumerate 0 persons))),
           [DetectCall imageBuffer]))"

section \<open>The file system\<close>

text \<open>
  Files are kept by path; writing to an existing path replaces the contents in place.
  \<^verbatim>\<open>fs.readdirSync(folder)\<close> lists the names directly under \<open>folder\<close>, sorted by
  the byte values of their characters, as Node does on Linux (the order on strings is
  the lexicographic order of the character codes). Every caller creates the folder
  before it lists it, so folders are not tracked on their own.
\<close>

type_synonym filesystem = "(string \<times> buffer) list"

fun writeFileSync :: "filesystem \<Rightarrow> string \<Rightarrow> buffer \<Rightarrow> filesystem" where
  "writeFileSync [] path data = [(path, data)]"
| "writeFileSync ((q, old) # rest) path data =
     (if q = path then (path, data) # rest else (q, old) # writeFileSync rest path data)"

definition entry_name :: "string \<Rightarrow> string \<Rightarrow> string option" where
  "entry_name folder path =
     (let n = length folder + 1 in
      if take n path = folder @ ''/'' \<and> CHR ''/'' \<notin> set (drop n path) \<and> drop n path \<noteq> []
      then Some (drop n path) else None)"

definition readdirSync :: "filesystem \<Rightarrow> string \<Rightarrow> string list" where
  "readdirSync fs folder =
     sort (List.map_filter (\<lambda>(path, data). entry_name folder path) fs)"

text \<open>
  \<^verbatim>\<open>sharp(imagePath)\<close> reads the file at the path; \<^verbatim>\<open>sharp(buffer)\<close> takes the bytes
  as they are. The codec itself (resize, JPEG encoding) stays a parameter.
\<close>

type_synonym codec = "buffer \<Rightarrow> nat \<Rightarrow> nat \<Rightarrow> error + buffer"

definition sharp_on :: "codec \<Rightarrow> filesystem \<Rightarrow> sharp" where
  "sharp_on codec fs inp width quality =
     (case inp of
        FromPath path \<Rightarrow>
          (case map_of fs path of
             None \<Rightarrow> Inl (Error ''Input file is missing'')
           | Some img \<Rightarrow> codec img width quality)
      | FromBuffer img \<Rightarrow> codec img width quality)"

section \<open>analyzePPEInFrames\<close>

text \<open>\<^verbatim>\<open>file.endsWith('.png')\<close> and \<^verbatim>\<open>path.join(folderPath, file)\<close>\<close>

definition endsWith :: "string \<Rightarrow> string \<Rightarrow> bool" where
  "endsWith s suffix =
     (length suffix \<le> length s \<and> drop (length s - length suffix) s = suffix)"

definition path_join :: "string \<Rightarrow> string \<Rightarrow> string" where
  "path_join folder name = folder @ ''/'' @ name"

type_synonym frame_entry = "string \<times> ppe_result"

type_synonym analyzer = "buffer \<Rightarrow> (error + ppe_result) \<times> event list"

fun analyzePPEInFrames_loop ::
  "sharp \<Rightarrow> analyzer \<Rightarrow> string \<Rightarrow> string list \<Rightarrow> frame_entry list \<Rightarrow>
   ((error + frame_entry list) \<times> event list) option" where
  "analyzePPEInFrames_loop sharp analyze folderPath [] ppeData = Some (Inr ppeData, [])"
| "analyzePPEInFrames_loop sharp analyze folderPath (file # files) ppeData =
     (let imagePath = path_join folderPath file in
      case resizeAndCompressImage sharp imagePath of
        None \<Rightarrow> None
      | Some (Inl e, calls) \<Rightarrow> Some (Inl e, calls)
      | Some (Inr resizedImageBuffer, calls) \<Rightarrow>
          (case analyze resizedImageBuffer of
             (Inl error, calls') \<Rightarrow>
               map_option (\<lambda>(r, rest). (r, calls @ calls' @ rest))
                 (analyzePPEInFrames_loop sharp analyze folderPath files ppeData)
           | (Inr ppeResult, calls') \<Rightarrow>
               map_option (\<lambda>(r, rest). (r, calls @ calls' @ rest))
                 (analyzePPEInFrames_loop sharp analyze folderPath files
                    (ppeData @ [(file, ppeResult)]))))"

text \<open>
  \<^verbatim>\<open>const files = fs.readdirSync(folderPath).filter(file => file.endsWith('.png'));\<close>
\<close>

definition png_files :: "filesystem \<Rightarrow> string \<Rightarrow> string list" where
  "png_files fs folderPath = filter (\<lambda>file. endsWith file ''.png'') (readdirSync fs folderPath)"

definition analyzePPEInFrames ::
  "sharp \<Rightarrow> analyzer \<Rightarrow> filesystem \<Rightarrow> string \<Rightarrow>
   ((error + frame_entry list) \<times> event list) option" where
  "analyzePPEInFrames sharp analyze fs folderPath =
     analyzePPEInFrames_loop sharp analyze folderPath (png_files fs folderPath) []"

section \<open>extractFrames\<close>

text \<open>\<^verbatim>\<open>frame-%03d.png\<close>: the frame number in decimal, padded with zeros to three digits.\<close>

definition pad3 :: "nat \<Rightarrow> string" where
  "pad3 n =
     (if n < 10 then ''00'' @ decimal n
      else if n < 100 then ''0'' @ decimal n
      else decimal n)"

definition frame_path :: "string \<Rightarrow> nat \<Rightarrow> string" where
  "frame_path outputFolder n = outputFolder @ ''/frame-'' @ pad3 n @ ''.png''"

text \<open>
  The transcoder is external: \<open>ffmpeg video\<close> is the list of frames it samples from
  the video at one frame per second, or its error. It numbers the frames from 1 and
  writes each to its own file, replacing a file of the same name.
\<close>

type_synonym transcoder = "buffer \<Rightarrow> error + buffer list"

fun write_frames :: "filesystem \<Rightarrow> string \<Rightarrow> nat \<Rightarrow> buffer list \<Rightarrow> filesystem" where
  "write_frames fs outputFolder n [] = fs"
| "write_frames fs outputFolder n (frame # frames) =
     write_frames (writeFileSync fs (frame_path outputFolder n) frame) outputFolder (Suc n) frames"

definition extractFrames ::
  "transcoder \<Rightarrow> filesystem \<Rightarrow> string \<Rightarrow> string \<Rightarrow> (error + unit) \<times> filesystem" where
  "extractFrames ffmpeg fs videoPath outputFolder =
     (case map_of fs videoPath of
        None \<Rightarrow> (Inl (Error ''No such file or directory''), fs)
      | Some video \<Rightarrow>
          (case ffmpeg video of
             Inl err \<Rightarrow> (Inl err, fs)
           | Inr frames \<Rightarrow> (Inr (), write_frames fs outputFolder 1 frames)))"

section \<open>Requests, responses, the database\<close>

record upload_file =
  file_originalname :: string
  file_buffer :: buffer

record upload_request =
  req_authorization :: "string option"
  req_file :: "upload_file option"

text \<open>
  The JSON bodies the handlers send: \<^verbatim>\<open>{ success: true, ppeData }\<close>,
  \<^verbatim>\<open>{ success: true, ppeData }\<close> with the detector's own response (index.js),
  \<^verbatim>\<open>{ success: false, error }\<close>, \<^verbatim>\<open>{ success: true, token }\<close> and \<^verbatim>\<open>{ error }\<close>.
\<close>

datatype body =
    UploadOk "frame_entry list"
  | RawOk "person list"
  | Failed string
  | LoginOk string
  | ErrorOnly string

text \<open>
  A handler either sends a response (status and body) or throws out of its
  \<^verbatim>\<open>async\<close> function before sending one; the handler's promise is then rejected
  and the JSON answer it would have sent is never written.
\<close>

datatype outcome = Responded nat body | Unhandled error

record user =
  user_id :: nat
  username :: string
  email :: string
  password_hash :: string

record log_row =
  log_user_id :: nat
  log_action :: string
  failed_requests :: "nat option"
  successful_requests :: "nat option"

text \<open>
  The tables the code reads and writes. \<open>db_down\<close> says that queries fail;
  \<open>counter_default\<close> is the value the schema (not part of the repository) gives a
  counter column that an \<^verbatim>\<open>INSERT\<close> does not mention.
\<close>

record database =
  db_down :: bool
  counter_default :: "nat option"
  Users :: "user list"
  Logs :: "log_row list"

text \<open>
  \<^verbatim>\<open>SELECT * FROM Users WHERE username = ?\<close>: the rows of that name, in the order of
  the table, or the error of the query.
\<close>

definition select_users :: "database \<Rightarrow> string \<Rightarrow> error + user list" where
  "select_users db name =
     (if db_down db then Inl (Error ''Database error'')
      else Inr (filter (\<lambda>u. username u = name) (Users db)))"

text \<open>
  \<^verbatim>\<open>INSERT INTO Logs (user_id, action, login_time) VALUES (?, ?, NOW())\<close>; an error
  is logged and nothing else happens.
\<close>

definition insert_log :: "database \<Rightarrow> nat \<Rightarrow> string \<Rightarrow> database" where
  "insert_log db uid act =
     (if db_down db then db
      else db\<lparr>Logs := Logs db @
             [\<lparr>log_user_id = uid, log_action = act,
               failed_requests = counter_default db,
               successful_requests = counter_default db\<rparr>]\<rparr>)"

text \<open>
  \<^verbatim>\<open>UPDATE Logs SET successful_requests = successful_requests + 1
       WHERE user_id = ? AND action = 'upload'\<close> and its twin for failed requests.
  \<^verbatim>\<open>NULL + 1\<close> is \<^verbatim>\<open>NULL\<close>.
\<close>

definition bump :: "nat option \<Rightarrow> nat option" where
  "bump c = map_option Suc c"

definition update_successful :: "database \<Rightarrow> nat \<Rightarrow> database" where
  "update_successful db uid =
     (if db_down db then db
      else db\<lparr>Logs := map (\<lambda>r. if log_user_id r = uid \<and> log_action r = ''upload''
                              then r\<lparr>successful_requests := bump (successful_requests r)\<rparr>
                              else r) (Logs db)\<rparr>)"

definition update_failed :: "database \<Rightarrow> nat \<Rightarrow> database" where
  "update_failed db uid =
     (if db_down db then db
      else db\<lparr>Logs := map (\<lambda>r. if log_user_id r = uid \<and> log_action r = ''upload''
                              then r\<lparr>failed_requests := bump (failed_requests r)\<rparr>
                              else r) (Logs db)\<rparr>)"

text \<open>The libraries and services a handler calls.\<close>

record env =
  env_tmpdir :: string
  env_dirname :: string
  env_ffmpeg :: transcoder
  env_screenshot :: "buffer \<Rightarrow> error + buffer"
  env_codec :: codec
  env_detect :: detector
  jwt_verify :: "string option \<Rightarrow> error + nat"
  jwt_sign :: "nat \<Rightarrow> string"
  bcrypt_compare :: "string \<Rightarrow> string \<Rightarrow> bool"

section \<open>login\<close>

record login_request =
  req_username :: string
  req_password :: string

definition invalid_credentials :: outcome where
  "invalid_credentials = Responded 400 (ErrorOnly ''Invalid credentials'')"

text \<open>server.js: a successful login also inserts a row into \<^verbatim>\<open>Logs\<close>.\<close>

definition login :: "env \<Rightarrow> database \<Rightarrow> login_request \<Rightarrow> outcome \<times> database" where
  "login e db req =
     (case select_users db (req_username req) of
        Inl err \<Rightarrow> (invalid_credentials, db)
      | Inr result \<Rightarrow>
          (case result of
             [] \<Rightarrow> (invalid_credentials, db)
           | user # _ \<Rightarrow>
               (let passwordMatch = bcrypt_compare e (req_password req) (password_hash user) in
                if \<not> passwordMatch then (invalid_credentials, db)
                else (let token = jwt_sign e (user_id user) in
                      (Responded 200 (LoginOk token), insert_log db (user_id user) ''login'')))))"

text \<open>auth.js: the same decisions, and no row is written.\<close>

definition auth_login :: "env \<Rightarrow> database \<Rightarrow> login_request \<Rightarrow> outcome \<times> database" where
  "auth_login e db req =
     (case select_users db (req_username req) of
        Inl err \<Rightarrow> (invalid_credentials, db)
      | Inr result \<Rightarrow>
          (case result of
             [] \<Rightarrow> (invalid_credentials, db)
           | user # _ \<Rightarrow>
               (let passwordMatch = bcrypt_compare e (req_password req) (password_hash user) in
                if \<not> passwordMatch then (invalid_credentials, db)
                else (let token = jwt_sign e (user_id user) in
                      (Responded 200 (LoginOk token), db)))))"

text \<open>Login requests handled one after the other, each on the database the last one left.\<close>

fun logins ::
  "(database \<Rightarrow> login_request \<Rightarrow> outcome \<times> database) \<Rightarrow> database \<Rightarrow> login_request list \<Rightarrow>
   outcome list \<times> database" where
  "logins handler db [] = ([], db)"
| "logins handler db (req # reqs) =
     (case handler db req of
        (out, db') \<Rightarrow> (case logins handler db' reqs of (outs, db'') \<Rightarrow> (out # outs, db'')))"

section \<open>The upload handlers\<close>

text \<open>\<^verbatim>\<open>string.split(separator)\<close> for a one-character separator, and \<^verbatim>\<open>array[i]\<close>.\<close>

fun split_on :: "char \<Rightarrow> string \<Rightarrow> string list" where
  "split_on sep [] = [[]]"
| "split_on sep (c # cs) =
     (if c = sep then [] # split_on sep cs
      else (case split_on sep cs of [] \<Rightarrow> [[c]] | w # ws \<Rightarrow> (c # w) # ws))"

definition nth_opt :: "'a list \<Rightarrow> nat \<Rightarrow> 'a option" where
  "nth_opt xs i = (if i < length xs then Some (xs ! i) else None)"

text \<open>
  \<^verbatim>\<open>req.headers.authorization && req.headers.authorization.split(' ')[1]\<close>: an absent
  header gives \<^verbatim>\<open>undefined\<close>, an empty one gives itself.
\<close>

definition bearer_token :: "string option \<Rightarrow> string option" where
  "bearer_token header =
     (case header of
        None \<Rightarrow> None
      | Some h \<Rightarrow> if h = [] then Some [] else nth_opt (split_on CHR '' '' h) 1)"

text \<open>\<^verbatim>\<open>error.message || 'Error processing video'\<close>\<close>

definition message_or :: "error \<Rightarrow> string \<Rightarrow> string" where
  "message_or err dflt =
     (case err of
        Error m \<Rightarrow> if m = [] then dflt else m
      | TypeError m \<Rightarrow> if m = [] then dflt else m)"

text \<open>
  server.js. The token is verified first; a request without a file is answered before
  anything is written. The frames folder is \<^verbatim>\<open>path.join(os.tmpdir(), 'frames')\<close>, the
  same for every request, and nothing is removed from it. In the \<^verbatim>\<open>catch\<close> block
  the \<^verbatim>\<open>INSERT\<close> names five columns and gives three values, which no database
  accepts, so only the \<^verbatim>\<open>UPDATE\<close> of the failure counter is a change.
\<close>

definition upload ::
  "env \<Rightarrow> filesystem \<times> database \<Rightarrow> upload_request \<Rightarrow>
   (outcome \<times> filesystem \<times> database \<times> event list) option" where
  "upload e world req =
     (case world of (fs, db) \<Rightarrow>
      (let token = bearer_token (req_authorization req) in
       case jwt_verify e token of
         Inl err \<Rightarrow> Some (Responded 401 (Failed ''Invalid token''), fs, db, [])
       | Inr uid \<Rightarrow>
           (case req_file req of
              None \<Rightarrow> Some (Responded 400 (Failed ''No file uploaded''), fs, db, [])
            | Some f \<Rightarrow>
                (let videoBuffer = file_buffer f;
                     outputFolder = path_join (env_tmpdir e) ''frames'';
                     videoPath = path_join outputFolder ''uploaded_video.mp4'';
                     fs1 = writeFileSync fs videoPath videoBuffer;
                     started = [WriteFile videoPath, FfmpegCall videoPath outputFolder]
                 in case extractFrames (env_ffmpeg e) fs1 videoPath outputFolder of
                      (Inl err, fs2) \<Rightarrow>
                        Some (Responded 500 (Failed (message_or err ''Error processing video'')),
                              fs2, update_failed db uid, started)
                    | (Inr resolved, fs2) \<Rightarrow>
                        (case analyzePPEInFrames (sharp_on (env_codec e) fs2)
                                (analyzePPEInImage (env_detect e)) fs2 outputFolder of
                           None \<Rightarrow> None
                         | Some (Inl err, calls) \<Rightarrow>
                             Some (Responded 500
                                     (Failed (message_or err ''Error processing video'')),
                                   fs2, update_failed db uid, started @ calls)
                         | Some (Inr ppeData, calls) \<Rightarrow>
                             Some (Responded 200 (UploadOk ppeData),
                                   fs2, update_successful db uid, started @ calls))))))"

text \<open>
  Upload requests handled one after the other, each on the file system and the database
  the last one left.
\<close>

fun uploads ::
  "env \<Rightarrow> filesystem \<times> database \<Rightarrow> upload_request list \<Rightarrow> outcome list option" where
  "uploads e world [] = Some []"
| "uploads e world (req # reqs) =
     (case upload e world req of
        None \<Rightarrow> None
      | Some (out, fs', db', calls) \<Rightarrow>
          map_option (\<lambda>outs. out # outs) (uploads e (fs', db') reqs))"

text \<open>
  index.js. The upload middleware stores the file under \<^verbatim>\<open>uploads/\<close> by its original
  name before the handler runs; the handler reads \<^verbatim>\<open>req.file.filename\<close> on its first
  line, outside the \<^verbatim>\<open>try\<close> block. One frame is taken from the video, written
  next to it and sent to the detector, whose response is relayed as it is.
\<close>

definition analyzePPEInImage_index ::
  "detector \<Rightarrow> filesystem \<Rightarrow> string \<Rightarrow> (error + person list) \<times> event list" where
  "analyzePPEInImage_index detect fs imagePath =
     (case map_of fs imagePath of
        None \<Rightarrow> (Inl (Error ''no such file or directory''), [])
      | Some img \<Rightarrow>
          (case detect img of
             Inl err \<Rightarrow> (Inl err, [DetectCall img])
           | Inr result \<Rightarrow> (Inr result, [DetectCall img])))"

definition index_upload ::
  "env \<Rightarrow> filesystem \<Rightarrow> upload_request \<Rightarrow> outcome \<times> filesystem \<times> event list" where
  "index_upload e fs req =
     (case req_file req of
        None \<Rightarrow> (Unhandled (TypeError ''Cannot read properties of undefined''), fs, [])
      | Some f \<Rightarrow>
          (let filename = file_originalname f;
               folder = path_join (env_dirname e) ''uploads'';
               videoPath = path_join folder filename;
               framePath =
                 path_join folder (takeWhile (\<lambda>c. c \<noteq> CHR ''.'') filename @ ''_frame.jpg'')
           in case map_of fs videoPath of
                None \<Rightarrow> (Responded 400 (Failed ''Uploaded video not found''), fs, [])
              | Some video \<Rightarrow>
                  (case env_screenshot e video of
                     Inl err \<Rightarrow>
                       (Responded 500 (Failed ''Error processing video''), fs,
                        [FfmpegCall videoPath ''uploads''])
                   | Inr frame \<Rightarrow>
                       (let fs1 = writeFileSync fs framePath frame in
                        case analyzePPEInImage_index (env_detect e) fs1 framePath of
                          (Inl err, calls) \<Rightarrow>
                            (Responded 500 (Failed ''Error detecting PPE''), fs1,
                             FfmpegCall videoPath ''uploads'' # calls)
                        | (Inr ppeData, calls) \<Rightarrow>
                            (Responded 200 (RawOk ppeData), fs1,
                             FfmpegCall videoPath ''uploads'' # calls)))))"

section \<open>Reading the results\<close>

text \<open>
  What a value of a per-person record is: a percentage (a string ending in \<^verbatim>\<open>%\<close>) or
  a confidence (a percentage or \<^verbatim>\<open>'N/A'\<close>); and the value under a key being one.
\<close>

definition is_percentage :: "jsval \<Rightarrow> bool" where
  "is_percentage v = (case v of JNum _ \<Rightarrow> False | JStr s \<Rightarrow> s \<noteq> [] \<and> last s = CHR ''%'')"

definition is_confidence :: "jsval \<Rightarrow> bool" where
  "is_confidence v = (is_percentage v \<or> v = JStr ''N/A'')"



text \<open>
  The seven categories the specification names, and what the detector's response says
  about each for a person: whether it is present, and with which confidence. A hand cover
  is looked for on the parts the detector calls \<^verbatim>\<open>LEFT_HAND\<close> and \<^verbatim>\<open>RIGHT_HAND\<close>.
\<close>

datatype category = Face | FaceCover | Head | HeadCover | Body | BodyCover | HandCover










text \<open>
  A detector response in which every confidence that is exactly 0 has been removed.
\<close>

definition zero_none :: "real option \<Rightarrow> real option" where
  "zero_none c = (case c of None \<Rightarrow> None | Some x \<Rightarrow> if x = 0 then None else Some x)"

definition zero_as_missing :: "person \<Rightarrow> person" where
  "zero_as_missing p =
     \<lparr>person_Confidence = zero_none (person_Confidence p),
      person_BodyParts =
        map (\<lambda>bp. \<lparr>bp_Name = bp_Name bp,
                   bp_Confidence = zero_none (bp_Confidence bp),
                   bp_EquipmentDetections =
                     map (\<lambda>ed. \<lparr>ed_Type = ed_Type ed,
                                ed_Confidence = zero_none (ed_Confidence ed)\<rparr>)
                       (bp_EquipmentDetections bp)\<rparr>)
          (person_BodyParts p)\<rparr>"

text \<open>
  The entries of those frames, in order, whose analysis did not throw; \<open>bufs\<close> gives
  the resized buffer of each frame.
\<close>

definition kept_frames :: "analyzer \<Rightarrow> (string \<Rightarrow> buffer) \<Rightarrow> string list \<Rightarrow> frame_entry list" where
  "kept_frames analyze bufs files =
     List.map_filter
       (\<lambda>file. case fst (analyze (bufs file)) of Inl e \<Rightarrow> None | Inr r \<Rightarrow> Some (file, r))
       files"

section \<open>Concrete inputs\<close>

text \<open>
  Three image libraries: one whose output is always 1000 bytes, one whose output is
  always 6,000,000 bytes, and one whose first pass gives 6,000,000 bytes and whose later
  passes give 1000.
\<close>

definition small_sharp :: sharp where
  "small_sharp inp w q = Inr (replicate 1000 0)"

definition stuck_sharp :: sharp where
  "stuck_sharp inp w q = Inr (replicate 6000000 0)"

definition two_pass_sharp :: sharp where
  "two_pass_sharp inp w q =
     (if w = 1280 then Inr (replicate 6000000 0) else Inr (replicate 1000 0))"





text \<open>A person with a cover on face, head and hands.\<close>

definition equipped_person :: person where
  "equipped_person =
     \<lparr>person_Confidence = None,
      person_BodyParts =
        [\<lparr>bp_Name = ''FACE'', bp_Confidence = Some 98,
          bp_EquipmentDetections = [\<lparr>ed_Type = ''FACE_COVER'', ed_Confidence = Some 97\<rparr>]\<rparr>,
         \<lparr>bp_Name = ''HEAD'', bp_Confidence = Some 96,
          bp_EquipmentDetections = [\<lparr>ed_Type = ''HEAD_COVER'', ed_Confidence = Some 95\<rparr>]\<rparr>,
         \<lparr>bp_Name = ''HAND'', bp_Confidence = Some 94,
          bp_EquipmentDetections = [\<lparr>ed_Type = ''HAND_COVER'', ed_Confidence = Some 93\<rparr>]\<rparr>,
         \<lparr>bp_Name = ''LEFT_HAND'', bp_Confidence = Some 92,
          bp_EquipmentDetections = [\<lparr>ed_Type = ''HAND_COVER'', ed_Confidence = Some 91\<rparr>]\<rparr>,
         \<lparr>bp_Name = ''RIGHT_HAND'', bp_Confidence = Some 90,
          bp_EquipmentDetections = [\<lparr>ed_Type = ''HAND_COVER'', ed_Confidence = Some 89\<rparr>]\<rparr>]\<rparr>"

text \<open>
  Surroundings for the examples: a video is the list of its seconds and the transcoder
  returns one one-byte frame for each; the codec returns the image as it is; the detector
  rejects the frame \<open>[0]\<close> and finds nobody in any other; the token \<^verbatim>\<open>good\<close> is
  the only valid one; a hash is \<^verbatim>\<open>hashed:\<close> followed by the password.
\<close>

definition frames_of :: transcoder where
  "frames_of video = Inr (map (\<lambda>b. [b]) video)"

definition example_env :: env where
  "example_env =
     \<lparr>env_tmpdir = ''/tmp'', env_dirname = ''/app'',
      env_ffmpeg = frames_of,
      env_screenshot = (\<lambda>video. Inr (take 1 video)),
      env_codec = (\<lambda>img width quality. Inr img),
      env_detect = (\<lambda>img. if img = [0] then Inl (Error ''InvalidImageFormatException'')
                            else Inr []),
      jwt_verify = (\<lambda>token. if token = Some ''good'' then Inr 7 else Inl (Error ''jwt malformed'')),
      jwt_sign = (\<lambda>uid. ''token-for-'' @ decimal uid),
      bcrypt_compare = (\<lambda>password hash. hash = ''hashed:'' @ password)\<rparr>"

text \<open>
  Two uploads, of a three-second and of a one-second video, and the files in the frames
  folder after each.
\<close>

definition empty_db :: database where
  "empty_db = \<lparr>db_down = False, counter_default = Some 0, Users = [], Logs = []\<rparr>"

definition long_request :: upload_request where
  "long_request =
     \<lparr>req_authorization = Some ''Bearer good'',
      req_file = Some \<lparr>file_originalname = ''long.mp4'', file_buffer = [1, 2, 3]\<rparr>\<rparr>"

definition short_request :: upload_request where
  "short_request =
     \<lparr>req_authorization = Some ''Bearer good'',
      req_file = Some \<lparr>file_originalname = ''short.mp4'', file_buffer = [9]\<rparr>\<rparr>"

definition fs_after_long :: filesystem where
  "fs_after_long =
     [(''/tmp/frames/uploaded_video.mp4'', [1, 2, 3]),
      (''/tmp/frames/frame-001.png'', [1]),
      (''/tmp/frames/frame-002.png'', [2]),
      (''/tmp/frames/frame-003.png'', [3])]"

definition fs_after_short :: filesystem where
  "fs_after_short =
     [(''/tmp/frames/uploaded_video.mp4'', [9]),
      (''/tmp/frames/frame-001.png'', [9]),
      (''/tmp/frames/frame-002.png'', [2]),
      (''/tmp/frames/frame-003.png'', [3])]"

text \<open>
  The frames folder of a three-second video whose second frame the detector rejects.
\<close>

definition fs_bad_frame :: filesystem where
  "fs_bad_frame =
     [(''/tmp/frames/uploaded_video.mp4'', [1, 0, 2]),
      (''/tmp/frames/frame-001.png'', [1]),
      (''/tmp/frames/frame-002.png'', [0]),
      (''/tmp/frames/frame-003.png'', [2])]"

definition bufs_bad_frame :: "string \<Rightarrow> buffer" where
  "bufs_bad_frame name =
     (if name = ''frame-001.png'' then [1] else if name = ''frame-002.png'' then [0] else [2])"

text \<open>
  A database with one user, and three login attempts with wrong passwords.
\<close>

definition alice :: user where
  "alice = \<lparr>user_id = 1, username = ''alice'', email = ''alice@example.org'',
            password_hash = ''hashed:secret''\<rparr>"

definition users_db :: database where
  "users_db = \<lparr>db_down = False, counter_default = Some 0, Users = [alice], Logs = []\<rparr>"

definition wrong_attempts :: "login_request list" where
  "wrong_attempts =
     [\<lparr>req_username = ''alice'', req_password = ''123456''\<rparr>,
      \<lparr>req_username = ''alice'', req_password = ''password''\<rparr>,
      \<lparr>req_username = ''alice'', req_password = ''Secret''\<rparr>]"

section \<open>Facts about resizeAndCompressImage\<close>

lemma fileSize_le_5: "fileSize b \<le> 5 \<longleftrightarrow> length b \<le> 5 * 1024 * 1024"
  by (simp add: fileSize_def field_simps)

lemma fileSize_replicate: "fileSize (replicate n x) = real n / 1024 / 1024"
  by (simp add: fileSize_def)

lemma small_loop: "\<not> fileSize [b] > 5"
  by (simp add: fileSize_def)

lemma compress_loop_done:
  "\<not> fileSize buf > 5 \<Longrightarrow> compress_loop sharp buf = Some (Inr buf, [])"
  by (subst compress_loop.simps) simp

lemma compress_loop_throw:
  "fileSize buf > 5 \<Longrightarrow> sharp (FromBuffer buf) 640 50 = Inl e \<Longrightarrow>
   compress_loop sharp buf = Some (Inl e, [SharpCall (FromBuffer buf) 640 50])"
  by (subst compress_loop.simps) simp

lemma compress_loop_again:
  "fileSize buf > 5 \<Longrightarrow> sharp (FromBuffer buf) 640 50 = Inr b \<Longrightarrow>
   compress_loop sharp buf =
     Option.bind (compress_loop sharp b)
       (\<lambda>(r, calls). Some (r, SharpCall (FromBuffer buf) 640 50 # calls))"
  by (subst compress_loop.simps) simp

lemma resize_small:
  "sharp (FromPath p) 1280 80 = Inr b \<Longrightarrow> \<not> fileSize b > 5 \<Longrightarrow>
   resizeAndCompressImage sharp p = Some (Inr b, [SharpCall (FromPath p) 1280 80])"
  by (simp add: resizeAndCompressImage_def compress_loop_done)

lemma compress_loop_result_small:
  assumes run: "compress_loop sharp buf = Some res"
  shows "\<forall>r calls. res = (Inr r, calls) \<longrightarrow> fileSize r \<le> 5"
proof (rule compress_loop.raw_induct [OF _ run], goal_cases)
  case (1 loop sharp buf res)
  note IH = "1" (1) and body = "1" (2)
  show ?case
  proof (cases "fileSize buf > 5")
    case False
    with body show ?thesis by auto
  next
    case big: True
    show ?thesis
    proof (cases "sharp (FromBuffer buf) 640 50")
      case (Inl e)
      with big body show ?thesis by auto
    next
      case (Inr b)
      with big body obtain r0 calls0 where
        inner: "loop sharp b = Some (r0, calls0)" and
        res: "res = (r0, SharpCall (FromBuffer buf) 640 50 # calls0)"
        by (auto simp: bind_eq_Some_conv)
      from IH [OF inner] res show ?thesis by simp
    qed
  qed
qed

lemma compress_loop_no_exit:
  assumes run: "compress_loop sharp buf = Some res"
  shows "(\<forall>b. \<exists>b'. sharp (FromBuffer b) 640 50 = Inr b' \<and> fileSize b' > 5) \<longrightarrow>
         \<not> fileSize buf > 5"
proof (rule compress_loop.raw_induct [OF _ run], goal_cases)
  case (1 loop sharp buf res)
  note IH = "1" (1) and body = "1" (2)
  show ?case
  proof (intro impI notI)
    assume stuck: "\<forall>b. \<exists>b'. sharp (FromBuffer b) 640 50 = Inr b' \<and> fileSize b' > 5"
    assume big: "fileSize buf > 5"
    from stuck obtain b' where
      enc: "sharp (FromBuffer buf) 640 50 = Inr b'" and big': "fileSize b' > 5"
      by blast
    from big enc body obtain res' where inner: "loop sharp b' = Some res'"
      by (auto simp: bind_eq_Some_conv)
    from IH [OF inner] stuck big' show False by simp
  qed
qed

lemma compress_loop_diverges:
  assumes "\<forall>b. \<exists>b'. sharp (FromBuffer b) 640 50 = Inr b' \<and> fileSize b' > 5"
    and "fileSize buf > 5"
  shows "compress_loop sharp buf = None"
proof (cases "compress_loop sharp buf")
  case None
  then show ?thesis .
next
  case (Some res)
  from compress_loop_no_exit [OF Some] assms show ?thesis by simp
qed

text \<open>
  C1 (the resize-and-compress operation terminates for every input image, the repetition
  eventually producing an output under the 5 MB ceiling). The loop re-encodes with the
  same width 640 and the same quality 50 on every round, so nothing shrinks from the
  second round on: for a frame whose 640-pixel, quality-50 encoding is 6,000,000 bytes
  every time, the call never returns.
\<close>

theorem resizeAndCompressImage_stuck:
  "resizeAndCompressImage stuck_sharp ''/tmp/frames/frame-001.png'' = None"
proof -
  have big: "fileSize (replicate 6000000 0) > 5"
    by (simp add: fileSize_replicate)
  have "\<forall>b. \<exists>b'. stuck_sharp (FromBuffer b) 640 50 = Inr b' \<and> fileSize b' > 5"
    using big by (simp add: stuck_sharp_def)
  then have "compress_loop stuck_sharp (replicate 6000000 0) = None"
    using big by (rule compress_loop_diverges)
  then show ?thesis
    by (simp add: resizeAndCompressImage_def stuck_sharp_def)
qed

lemma loop_progress:
  "reencoded sharp n buf = Some b \<Longrightarrow> \<not> fileSize b > 5 \<Longrightarrow>
   \<exists>calls. compress_loop sharp buf = Some (Inr b, calls) \<and> length calls = n"
proof (induction n arbitrary: buf)
  case 0
  then show ?case by (simp add: compress_loop_done)
next
  case (Suc n)
  from Suc.prems(1) have big: "fileSize buf > 5"
    by (simp split: if_splits)
  with Suc.prems(1) obtain b1 where
    enc: "sharp (FromBuffer buf) 640 50 = Inr b1" and rest: "reencoded sharp n b1 = Some b"
    by (auto split: sum.splits)
  from Suc.IH [OF rest Suc.prems(2)] obtain calls where
    "compress_loop sharp b1 = Some (Inr b, calls)" "length calls = n"
    by blast
  with big enc show ?case
    by (simp add: compress_loop_again)
qed

lemma loop_rounds:
  assumes run: "compress_loop sharp buf = Some res"
  shows "\<forall>b calls. res = (Inr b, calls) \<longrightarrow> reencoded sharp (length calls) buf = Some b"
proof (rule compress_loop.raw_induct [OF _ run], goal_cases)
  case (1 loop sharp buf res)
  note IH = "1" (1) and body = "1" (2)
  show ?case
  proof (cases "fileSize buf > 5")
    case False
    with body show ?thesis by auto
  next
    case big: True
    show ?thesis
    proof (cases "sharp (FromBuffer buf) 640 50")
      case (Inl e)
      with big body show ?thesis by auto
    next
      case (Inr b1)
      with big body obtain r0 calls0 where
        inner: "loop sharp b1 = Some (r0, calls0)" and
        res: "res = (r0, SharpCall (FromBuffer buf) 640 50 # calls0)"
        by (auto simp: bind_eq_Some_conv)
      from IH [OF inner] res big Inr show ?thesis by simp
    qed
  qed
qed

text \<open>
  C2 (the buffer returned by the resize-and-compress operation is at most 5 MB). With any
  image library and any path: a buffer that the function returns has at most
  \<open>5 * 1024 * 1024\<close> bytes, the unit in which the code measures megabytes, and is what
  the rounds of the loop made of the first pass; and whenever the first pass succeeds and
  \<open>n\<close> rounds of the loop bring the buffer within that size, the function does return
  that buffer, after \<open>n + 1\<close> calls of the library.
\<close>

theorem resizeAndCompressImage_at_most_5MB:
  "(resizeAndCompressImage sharp imagePath = Some (Inr buf, calls) \<longrightarrow>
      length buf \<le> 5 * 1024 * 1024
      \<and> (\<exists>b0. sharp (FromPath imagePath) 1280 80 = Inr b0
            \<and> reencoded sharp (length calls - 1) b0 = Some buf))
   \<and> (sharp (FromPath imagePath) 1280 80 = Inr b0 \<longrightarrow>
      reencoded sharp n b0 = Some b \<longrightarrow>
      length b \<le> 5 * 1024 * 1024 \<longrightarrow>
      (\<exists>calls. resizeAndCompressImage sharp imagePath = Some (Inr b, calls)
         \<and> length calls = Suc n))"
proof (intro conjI impI)
  assume run: "resizeAndCompressImage sharp imagePath = Some (Inr buf, calls)"
  then obtain b1 where first: "sharp (FromPath imagePath) 1280 80 = Inr b1"
    by (cases "sharp (FromPath imagePath) 1280 80") (simp_all add: resizeAndCompressImage_def)
  with run obtain calls0 where
    loop: "compress_loop sharp b1 = Some (Inr buf, calls0)" and
    calls: "calls = SharpCall (FromPath imagePath) 1280 80 # calls0"
    by (auto simp: resizeAndCompressImage_def bind_eq_Some_conv)
  from compress_loop_result_small [OF loop] have "fileSize buf \<le> 5" by simp
  then show "length buf \<le> 5 * 1024 * 1024" by (simp only: fileSize_le_5)
  from loop_rounds [OF loop] calls first
  show "\<exists>b0. sharp (FromPath imagePath) 1280 80 = Inr b0
            \<and> reencoded sharp (length calls - 1) b0 = Some buf"
    by simp
next
  assume first: "sharp (FromPath imagePath) 1280 80 = Inr b0"
    and rounds: "reencoded sharp n b0 = Some b"
    and small: "length b \<le> 5 * 1024 * 1024"
  from small have "\<not> fileSize b > 5"
    using fileSize_le_5 [of b] by simp
  from loop_progress [OF rounds this] obtain calls0 where
    "compress_loop sharp b0 = Some (Inr b, calls0)" "length calls0 = n"
    by blast
  with first show "\<exists>calls. resizeAndCompressImage sharp imagePath = Some (Inr b, calls)
         \<and> length calls = Suc n"
    by (simp add: resizeAndCompressImage_def)
qed

lemma two_pass_run:
  "resizeAndCompressImage two_pass_sharp ''frame-001.png'' =
     Some (Inr (replicate 1000 0),
       [SharpCall (FromPath ''frame-001.png'') 1280 80,
        SharpCall (FromBuffer (replicate 6000000 0)) 640 50])"
proof -
  have small: "compress_loop two_pass_sharp (replicate 1000 0) = Some (Inr (replicate 1000 0), [])"
    by (rule compress_loop_done) (simp add: fileSize_replicate)
  have "compress_loop two_pass_sharp (replicate 6000000 0) =
     Option.bind (compress_loop two_pass_sharp (replicate 1000 0))
       (\<lambda>(r, calls). Some (r, SharpCall (FromBuffer (replicate 6000000 0)) 640 50 # calls))"
    by (rule compress_loop_again) (simp_all add: fileSize_replicate two_pass_sharp_def)
  with small show ?thesis
    by (simp add: resizeAndCompressImage_def two_pass_sharp_def)
qed

lemma two_pass_rounds:
  "reencoded two_pass_sharp (Suc 0) (replicate 6000000 0) = Some (replicate 1000 0)"
  by (simp add: two_pass_sharp_def fileSize_replicate)

text \<open>A run of two passes: 6,000,000 bytes after the first, 1000 after the second.\<close>

theorem resizeAndCompressImage_at_most_5MB_witness:
  "resizeAndCompressImage two_pass_sharp ''frame-001.png'' =
     Some (Inr (replicate 1000 0),
       [SharpCall (FromPath ''frame-001.png'') 1280 80,
        SharpCall (FromBuffer (replicate 6000000 0)) 640 50])
   \<and> length (replicate 1000 (0 :: 8 word)) \<le> 5 * 1024 * 1024
   \<and> two_pass_sharp (FromPath ''frame-001.png'') 1280 80 = Inr (replicate 6000000 0)
   \<and> reencoded two_pass_sharp (Suc 0) (replicate 6000000 0) = Some (replicate 1000 0)
   \<and> (\<exists>calls. resizeAndCompressImage two_pass_sharp ''frame-001.png'' =
          Some (Inr (replicate 1000 0), calls) \<and> length calls = Suc (Suc 0))"
proof -
  have first: "two_pass_sharp (FromPath ''frame-001.png'') 1280 80 = Inr (replicate 6000000 0)"
    by (simp add: two_pass_sharp_def)
  have small: "length (replicate 1000 (0 :: 8 word)) \<le> 5 * 1024 * 1024"
    by simp
  from resizeAndCompressImage_at_most_5MB
    [of two_pass_sharp "''frame-001.png''" "replicate 1000 0"
        "[SharpCall (FromPath ''frame-001.png'') 1280 80,
          SharpCall (FromBuffer (replicate 6000000 0)) 640 50]"
        "replicate 6000000 0" "Suc 0" "replicate 1000 0"]
    two_pass_run first two_pass_rounds small
  show ?thesis by simp
qed

text \<open>
  C8 (if the first encoding pass, width 1280 and quality 80, already yields a buffer of at
  most 5 MB, no second pass is performed and that buffer is returned unchanged): the run
  returns the first-pass buffer, and the only library call it made is the first pass.
\<close>

theorem resizeAndCompressImage_single_pass:
  assumes "sharp (FromPath imagePath) 1280 80 = Inr b"
    and "length b \<le> 5 * 1024 * 1024"
  shows "resizeAndCompressImage sharp imagePath =
           Some (Inr b, [SharpCall (FromPath imagePath) 1280 80])"
proof -
  from assms(2) have "\<not> fileSize b > 5"
    using fileSize_le_5 [of b] by simp
  then have "compress_loop sharp b = Some (Inr b, [])"
    by (rule compress_loop_done)
  with assms(1) show ?thesis
    by (simp add: resizeAndCompressImage_def)
qed

text \<open>A first pass of 1000 bytes.\<close>

theorem resizeAndCompressImage_single_pass_witness:
  "small_sharp (FromPath ''frame-001.png'') 1280 80 = Inr (replicate 1000 0)
   \<and> length (replicate 1000 (0 :: 8 word)) \<le> 5 * 1024 * 1024
   \<and> resizeAndCompressImage small_sharp ''frame-001.png'' =
       Some (Inr (replicate 1000 0), [SharpCall (FromPath ''frame-001.png'') 1280 80])"
proof -
  have a: "small_sharp (FromPath ''frame-001.png'') 1280 80 = Inr (replicate 1000 0)"
    by (simp add: small_sharp_def)
  have b: "length (replicate 1000 (0 :: 8 word)) \<le> 5 * 1024 * 1024"
    by simp
  from resizeAndCompressImage_single_pass [where sharp = small_sharp, OF a b] a b
  show ?thesis by simp
qed

section \<open>Facts about the per-person records\<close>

lemma bool_str_simps [simp]:
  "bool_str True = ''true''" "bool_str False = ''false''"
  "bool_str b = ''true'' \<longleftrightarrow> b" "bool_str b = ''false'' \<longleftrightarrow> \<not> b"
  by (simp_all add: bool_str_def)

lemma cover_implies_part: "cover_detected p name type \<Longrightarrow> part_detected p name"
  by (auto simp: cover_detected_def part_detected_def list_ex_iff)

lemma is_percentage_simps [simp]:
  "is_percentage (JStr (s @ ''%''))"
  "\<not> is_percentage (JStr (bool_str b))"
  "\<not> is_percentage (JNum n)"
  "\<not> is_percentage (JStr ''N/A'')"
  by (simp_all add: is_percentage_def bool_str_def)

lemma is_confidence_simps [simp]:
  "is_confidence (JStr (s @ ''%''))"
  "is_confidence (JStr (confidence_str c))"
  "\<not> is_confidence (JStr (bool_str b))"
  "\<not> is_confidence (JNum n)"
  by (auto simp: is_confidence_def is_percentage_def confidence_str_def bool_str_def
      split: option.splits)








text \<open>
  C9 (in every per-person record a cover flag that is true implies that the flag of its
  body part is true: face mask and face, helmet and head, gloves and hands). The same
  holds in the variants that report confidences, for face, head and each hand.
\<close>

theorem cover_flag_implies_part_flag:
  "(map_of (personResult i p) ''Face mask detected'' = Some (JStr ''true'') \<longrightarrow>
      map_of (personResult i p) ''Face detected'' = Some (JStr ''true''))
   \<and> (map_of (personResult i p) ''Helmet detected'' = Some (JStr ''true'') \<longrightarrow>
      map_of (personResult i p) ''Head detected'' = Some (JStr ''true''))
   \<and> (map_of (personResult i p) ''Gloves detected'' = Some (JStr ''true'') \<longrightarrow>
      map_of (personResult i p) ''Hands detected'' = Some (JStr ''true''))
   \<and> (map_of (personResult_conf i p) ''Face mask detected'' = Some (JStr ''true'') \<longrightarrow>
      map_of (personResult_conf i p) ''Face detected'' = Some (JStr ''true''))
   \<and> (map_of (personResult_conf i p) ''Helmet detected'' = Some (JStr ''true'') \<longrightarrow>
      map_of (personResult_conf i p) ''Head detected'' = Some (JStr ''true''))
   \<and> (map_of (personResult_conf i p) ''Left hand cover detected'' = Some (JStr ''true'') \<longrightarrow>
      map_of (personResult_conf i p) ''Left hand detected'' = Some (JStr ''true''))
   \<and> (map_of (personResult_conf i p) ''Right hand cover detected'' = Some (JStr ''true'') \<longrightarrow>
      map_of (personResult_conf i p) ''Right hand detected'' = Some (JStr ''true''))"
proof -
  have server: "(map_of (personResult i p) ''Face mask detected'' = Some (JStr ''true'') \<longrightarrow>
      map_of (personResult i p) ''Face detected'' = Some (JStr ''true''))
   \<and> (map_of (personResult i p) ''Helmet detected'' = Some (JStr ''true'') \<longrightarrow>
      map_of (personResult i p) ''Head detected'' = Some (JStr ''true''))
   \<and> (map_of (personResult i p) ''Gloves detected'' = Some (JStr ''true'') \<longrightarrow>
      map_of (personResult i p) ''Hands detected'' = Some (JStr ''true''))"
    by (simp add: personResult_def cover_implies_part)
  have conf: "(map_of (personResult_conf i p) ''Face mask detected'' = Some (JStr ''true'') \<longrightarrow>
      map_of (personResult_conf i p) ''Face detected'' = Some (JStr ''true''))
   \<and> (map_of (personResult_conf i p) ''Helmet detected'' = Some (JStr ''true'') \<longrightarrow>
      map_of (personResult_conf i p) ''Head detected'' = Some (JStr ''true''))
   \<and> (map_of (personResult_conf i p) ''Left hand cover detected'' = Some (JStr ''true'') \<longrightarrow>
      map_of (personResult_conf i p) ''Left hand detected'' = Some (JStr ''true''))
   \<and> (map_of (personResult_conf i p) ''Right hand cover detected'' = Some (JStr ''true'') \<longrightarrow>
      map_of (personResult_conf i p) ''Right hand detected'' = Some (JStr ''true''))"
    by (simp add: personResult_conf_def cover_implies_part)
  from server conf show ?thesis by blast
qed

text \<open>A person whose face, head and hands each carry their cover.\<close>

theorem cover_flag_implies_part_flag_witness:
  "map_of (personResult 0 equipped_person) ''Face mask detected'' = Some (JStr ''true'')
   \<and> map_of (personResult 0 equipped_person) ''Face detected'' = Some (JStr ''true'')
   \<and> map_of (personResult 0 equipped_person) ''Helmet detected'' = Some (JStr ''true'')
   \<and> map_of (personResult 0 equipped_person) ''Head detected'' = Some (JStr ''true'')
   \<and> map_of (personResult 0 equipped_person) ''Gloves detected'' = Some (JStr ''true'')
   \<and> map_of (personResult 0 equipped_person) ''Hands detected'' = Some (JStr ''true'')
   \<and> map_of (personResult_conf 0 equipped_person) ''Face mask detected'' = Some (JStr ''true'')
   \<and> map_of (personResult_conf 0 equipped_person) ''Face detected'' = Some (JStr ''true'')
   \<and> map_of (personResult_conf 0 equipped_person) ''Helmet detected'' = Some (JStr ''true'')
   \<and> map_of (personResult_conf 0 equipped_person) ''Head detected'' = Some (JStr ''true'')
   \<and> map_of (personResult_conf 0 equipped_person) ''Left hand cover detected'' =
       Some (JStr ''true'')
   \<and> map_of (personResult_conf 0 equipped_person) ''Left hand detected'' = Some (JStr ''true'')
   \<and> map_of (personResult_conf 0 equipped_person) ''Right hand cover detected'' =
       Some (JStr ''true'')
   \<and> map_of (personResult_conf 0 equipped_person) ''Right hand detected'' = Some (JStr ''true'')"
proof -
  have a: "map_of (personResult 0 equipped_person) ''Face mask detected'' = Some (JStr ''true'')"
    by (simp add: personResult_def cover_detected_def equipped_person_def)
  have b: "map_of (personResult 0 equipped_person) ''Helmet detected'' = Some (JStr ''true'')"
    by (simp add: personResult_def cover_detected_def equipped_person_def)
  have c: "map_of (personResult 0 equipped_person) ''Gloves detected'' = Some (JStr ''true'')"
    by (simp add: personResult_def cover_detected_def equipped_person_def)
  have d: "map_of (personResult_conf 0 equipped_person) ''Face mask detected'' =
      Some (JStr ''true'')"
    by (simp add: personResult_conf_def cover_detected_def equipped_person_def)
  have e: "map_of (personResult_conf 0 equipped_person) ''Helmet detected'' =
      Some (JStr ''true'')"
    by (simp add: personResult_conf_def cover_detected_def equipped_person_def)
  have f: "map_of (personResult_conf 0 equipped_person) ''Left hand cover detected'' =
      Some (JStr ''true'')"
    by (simp add: personResult_conf_def cover_detected_def equipped_person_def)
  have g: "map_of (personResult_conf 0 equipped_person) ''Right hand cover detected'' =
      Some (JStr ''true'')"
    by (simp add: personResult_conf_def cover_detected_def equipped_person_def)
  from cover_flag_implies_part_flag [of 0 equipped_person] a b c d e f g
  show ?thesis by blast
qed

lemma or_zero_zero_none [simp]: "or_zero (zero_none c) = or_zero c"
  by (simp add: or_zero_def zero_none_def split: option.splits)

lemma confidence_str_zero_none [simp]: "confidence_str (zero_none c) = confidence_str c"
  by (simp add: confidence_str_def zero_none_def split: option.splits)

lemma first_elem_zero_none:
  "first_elem (map (\<lambda>x. zero_none (f x)) xs) = zero_none (first_elem (map f xs))"
  by (cases xs) (simp_all add: first_elem_def zero_none_def)

lemma zero_as_missing_same_record:
  "personResult_conf i (zero_as_missing p) = personResult_conf i p"
proof -
  let ?g = "\<lambda>bp. \<lparr>bp_Name = bp_Name bp,
                   bp_Confidence = zero_none (bp_Confidence bp),
                   bp_EquipmentDetections =
                     map (\<lambda>ed. \<lparr>ed_Type = ed_Type ed,
                                ed_Confidence = zero_none (ed_Confidence ed)\<rparr>)
                       (bp_EquipmentDetections bp)\<rparr>"
  have parts: "person_BodyParts (zero_as_missing p) = map ?g (person_BodyParts p)"
    by (simp add: zero_as_missing_def)
  have flt: "\<And>name. filter (\<lambda>bp. bp_Name bp = name) (map ?g (person_BodyParts p)) =
                map ?g (filter (\<lambda>bp. bp_Name bp = name) (person_BodyParts p))"
    by (simp add: filter_map o_def)
  have pd: "\<And>name. part_detected (zero_as_missing p) name = part_detected p name"
    by (simp add: part_detected_def parts list_ex_iff)
  have cd: "\<And>name type. cover_detected (zero_as_missing p) name type = cover_detected p name type"
    by (simp add: cover_detected_def parts flt list_ex_iff)
  have fec: "\<And>bp. first_equipment_confidence (?g bp) = zero_none (first_equipment_confidence bp)"
    by (simp add: first_equipment_confidence_def zero_none_def split: list.splits)
  have pc: "person_Confidence (zero_as_missing p) = zero_none (person_Confidence p)"
    by (simp add: zero_as_missing_def)
  show ?thesis
    by (simp add: personResult_conf_def pd cd parts flt pc fec o_def first_elem_zero_none)
qed

text \<open>
  C10 (in the variants that report confidences, a confidence of exactly 0 is rendered as
  \<^verbatim>\<open>'N/A'\<close>, indistinguishable from a missing one, and a person with no confidence is
  reported as \<^verbatim>\<open>'0.00%'\<close>): a head part with confidence 0 and a first equipment
  detection with confidence 0 on head, face or body give \<^verbatim>\<open>'N/A'\<close> under their keys;
  removing every zero confidence from a person leaves the record as it was; a person
  without confidence has \<^verbatim>\<open>'0.00%'\<close> under \<^verbatim>\<open>Person detected\<close>.
\<close>

theorem zero_confidence_not_available:
  "map_of (personResult_conf i
       \<lparr>person_Confidence = c,
        person_BodyParts =
          \<lparr>bp_Name = ''HEAD'', bp_Confidence = Some 0, bp_EquipmentDetections = eds\<rparr> # parts\<rparr>)
     ''Head detection confidence'' = Some (JStr ''N/A'')
   \<and> map_of (personResult_conf i
       \<lparr>person_Confidence = c,
        person_BodyParts =
          \<lparr>bp_Name = ''HEAD'', bp_Confidence = pc,
           bp_EquipmentDetections = \<lparr>ed_Type = t, ed_Confidence = Some 0\<rparr> # eds\<rparr> # parts\<rparr>)
     ''Helmet detection confidence'' = Some (JStr ''N/A'')
   \<and> map_of (personResult_conf i
       \<lparr>person_Confidence = c,
        person_BodyParts =
          \<lparr>bp_Name = ''FACE'', bp_Confidence = pc,
           bp_EquipmentDetections = \<lparr>ed_Type = t, ed_Confidence = Some 0\<rparr> # eds\<rparr> # parts\<rparr>)
     ''Face mask detection confidence'' = Some (JStr ''N/A'')
   \<and> map_of (personResult_conf i
       \<lparr>person_Confidence = c,
        person_BodyParts =
          \<lparr>bp_Name = ''BODY'', bp_Confidence = pc,
           bp_EquipmentDetections = \<lparr>ed_Type = t, ed_Confidence = Some 0\<rparr> # eds\<rparr> # parts\<rparr>)
     ''Protective vest detection confidence'' = Some (JStr ''N/A'')
   \<and> personResult_conf i (zero_as_missing p) = personResult_conf i p
   \<and> map_of (personResult_conf i (p\<lparr>person_Confidence := None\<rparr>)) ''Person detected'' =
       Some (JStr ''0.00%'')"
proof -
  have zero: "toFixed2 0 = ''0.00''"
    by (simp add: toFixed2_def decimal.simps digit_def)
  have a: "map_of (personResult_conf i
       \<lparr>person_Confidence = c,
        person_BodyParts =
          \<lparr>bp_Name = ''HEAD'', bp_Confidence = Some 0, bp_EquipmentDetections = eds\<rparr> # parts\<rparr>)
     ''Head detection confidence'' = Some (JStr ''N/A'')"
    by (simp add: personResult_conf_def first_elem_def confidence_str_def)
  have b: "\<And>name key. map_of (personResult_conf i
       \<lparr>person_Confidence = c,
        person_BodyParts =
          \<lparr>bp_Name = ''HEAD'', bp_Confidence = pc,
           bp_EquipmentDetections = \<lparr>ed_Type = t, ed_Confidence = Some 0\<rparr> # eds\<rparr> # parts\<rparr>)
     ''Helmet detection confidence'' = Some (JStr ''N/A'')"
    by (simp add: personResult_conf_def first_elem_def confidence_str_def
        first_equipment_confidence_def)
  have c: "map_of (personResult_conf i
       \<lparr>person_Confidence = c,
        person_BodyParts =
          \<lparr>bp_Name = ''FACE'', bp_Confidence = pc,
           bp_EquipmentDetections = \<lparr>ed_Type = t, ed_Confidence = Some 0\<rparr> # eds\<rparr> # parts\<rparr>)
     ''Face mask detection confidence'' = Some (JStr ''N/A'')"
    by (simp add: personResult_conf_def first_elem_def confidence_str_def
        first_equipment_confidence_def)
  have d: "map_of (personResult_conf i
       \<lparr>person_Confidence = c,
        person_BodyParts =
          \<lparr>bp_Name = ''BODY'', bp_Confidence = pc,
           bp_EquipmentDetections = \<lparr>ed_Type = t, ed_Confidence = Some 0\<rparr> # eds\<rparr> # parts\<rparr>)
     ''Protective vest detection confidence'' = Some (JStr ''N/A'')"
    by (simp add: personResult_conf_def first_elem_def confidence_str_def
        first_equipment_confidence_def)
  have e: "map_of (personResult_conf i (p\<lparr>person_Confidence := None\<rparr>)) ''Person detected'' =
       Some (JStr ''0.00%'')"
    by (simp add: personResult_conf_def or_zero_def zero)
  from a b c d e zero_as_missing_same_record show ?thesis by blast
qed

section \<open>Facts about analyzePPEInFrames\<close>

lemma kept_frames_Cons:
  "kept_frames analyze bufs (file # files) =
     (case fst (analyze (bufs file)) of Inl e \<Rightarrow> [] | Inr r \<Rightarrow> [(file, r)]) @
     kept_frames analyze bufs files"
  by (simp add: kept_frames_def List.map_filter_simps split: sum.splits)

lemma kept_frames_names:
  "map fst (kept_frames analyze bufs files) =
     filter (\<lambda>file. \<not> isl (fst (analyze (bufs file)))) files"
proof (induction files)
  case Nil
  show ?case by (simp add: kept_frames_def List.map_filter_simps)
next
  case (Cons f fs)
  then show ?case by (simp add: kept_frames_Cons split: sum.splits)
qed

lemma analyze_calls:
  "snd (analyzePPEInImage detect b) = [DetectCall b]"
  "snd (analyzePPEInImage_conf detect b) = [DetectCall b]"
  by (simp_all add: analyzePPEInImage_def analyzePPEInImage_conf_def split: sum.splits)

lemma analyze_fails_iff:
  "isl (fst (analyzePPEInImage detect b)) = isl (detect b)"
  "isl (fst (analyzePPEInImage_conf detect b)) = isl (detect b)"
  by (simp_all add: analyzePPEInImage_def analyzePPEInImage_conf_def split: sum.splits)

lemma loop_all:
  assumes "\<forall>file \<in> set files. \<exists>calls.
      resizeAndCompressImage sharp (path_join folderPath file) = Some (Inr (bufs file), calls)"
  shows "\<exists>calls.
      analyzePPEInFrames_loop sharp analyze folderPath files ppeData =
        Some (Inr (ppeData @ kept_frames analyze bufs files), calls)
      \<and> (\<forall>file \<in> set files. set (snd (analyze (bufs file))) \<subseteq> set calls)"
  using assms
proof (induction files arbitrary: ppeData)
  case Nil
  then show ?case by (simp add: kept_frames_def List.map_filter_simps)
next
  case (Cons f fs)
  from Cons.prems obtain calls0 where
    r: "resizeAndCompressImage sharp (path_join folderPath f) = Some (Inr (bufs f), calls0)"
    by auto
  from Cons.prems have rest: "\<forall>file \<in> set fs. \<exists>calls.
      resizeAndCompressImage sharp (path_join folderPath file) = Some (Inr (bufs file), calls)"
    by simp
  obtain res calls1 where a: "analyze (bufs f) = (res, calls1)"
    by (cases "analyze (bufs f)")
  show ?case
  proof (cases res)
    case (Inl e)
    from Cons.IH [OF rest, of ppeData] obtain calls2 where
      ih: "analyzePPEInFrames_loop sharp analyze folderPath fs ppeData =
             Some (Inr (ppeData @ kept_frames analyze bufs fs), calls2)"
      and sub: "\<forall>file \<in> set fs. set (snd (analyze (bufs file))) \<subseteq> set calls2"
      by blast
    from r a Inl ih sub show ?thesis
      by (auto simp: kept_frames_Cons)
  next
    case (Inr ppeResult)
    from Cons.IH [OF rest, of "ppeData @ [(f, ppeResult)]"] obtain calls2 where
      ih: "analyzePPEInFrames_loop sharp analyze folderPath fs (ppeData @ [(f, ppeResult)]) =
             Some (Inr ((ppeData @ [(f, ppeResult)]) @ kept_frames analyze bufs fs), calls2)"
      and sub: "\<forall>file \<in> set fs. set (snd (analyze (bufs file))) \<subseteq> set calls2"
      by blast
    from r a Inr ih sub show ?thesis
      by (auto simp: kept_frames_Cons)
  qed
qed

text \<open>
  C3 (a frame whose detector call fails is omitted from the aggregate, all later frames
  are still processed, and the request still succeeds with the other frames' results).
  With either normaliser, and provided the resize step returns a buffer for every frame:
  the analysis of the folder returns; its entries are those of the frames whose detector
  call did not fail, in the order of the listing; and every frame of the listing was
  sent to the detector.
\<close>

theorem frames_survive_detector_failure:
  assumes "analyze = analyzePPEInImage detect \<or> analyze = analyzePPEInImage_conf detect"
    and "\<forall>file \<in> set (png_files fs folderPath). \<exists>calls.
      resizeAndCompressImage sharp (path_join folderPath file) = Some (Inr (bufs file), calls)"
  shows "\<exists>ppeData calls.
      analyzePPEInFrames sharp analyze fs folderPath = Some (Inr ppeData, calls)
      \<and> ppeData = kept_frames analyze bufs (png_files fs folderPath)
      \<and> map fst ppeData =
          filter (\<lambda>file. \<not> isl (detect (bufs file))) (png_files fs folderPath)
      \<and> (\<forall>file \<in> set (png_files fs folderPath). DetectCall (bufs file) \<in> set calls)"
proof -
  from loop_all [OF assms(2), of analyze "[]"] obtain calls where
    run: "analyzePPEInFrames_loop sharp analyze folderPath (png_files fs folderPath) [] =
            Some (Inr (kept_frames analyze bufs (png_files fs folderPath)), calls)"
    and sub: "\<forall>file \<in> set (png_files fs folderPath).
            set (snd (analyze (bufs file))) \<subseteq> set calls"
    by auto
  from assms(1) have calls_of: "\<And>b. snd (analyze b) = [DetectCall b]"
    by (auto simp: analyze_calls)
  from assms(1) have fails: "\<And>b. isl (fst (analyze b)) = isl (detect b)"
    by (auto simp: analyze_fails_iff)
  from sub calls_of have
    "\<forall>file \<in> set (png_files fs folderPath). DetectCall (bufs file) \<in> set calls"
    by simp
  moreover have "map fst (kept_frames analyze bufs (png_files fs folderPath)) =
      filter (\<lambda>file. \<not> isl (detect (bufs file))) (png_files fs folderPath)"
    by (simp add: kept_frames_names fails)
  ultimately show ?thesis
    using run by (simp add: analyzePPEInFrames_def)
qed

lemma listing_bad:
  "png_files fs_bad_frame ''/tmp/frames'' = [''frame-001.png'', ''frame-002.png'', ''frame-003.png'']"
  by (simp add: png_files_def readdirSync_def List.map_filter_simps entry_name_def
      endsWith_def fs_bad_frame_def)

lemma resize_bad:
  "\<forall>file \<in> set (png_files fs_bad_frame ''/tmp/frames''). \<exists>calls.
      resizeAndCompressImage (sharp_on (env_codec example_env) fs_bad_frame)
        (path_join ''/tmp/frames'' file) = Some (Inr (bufs_bad_frame file), calls)"
  apply (simp only: listing_bad)
  apply (simp add: path_join_def resize_small sharp_on_def fs_bad_frame_def
      example_env_def small_loop bufs_bad_frame_def)
  done

text \<open>Three frames, the second of which the detector rejects.\<close>

theorem frames_survive_detector_failure_witness:
  "\<exists>calls.
     analyzePPEInFrames (sharp_on (env_codec example_env) fs_bad_frame)
       (analyzePPEInImage (env_detect example_env)) fs_bad_frame ''/tmp/frames'' =
       Some (Inr [(''frame-001.png'', PerPersonResults []),
                  (''frame-003.png'', PerPersonResults [])], calls)
     \<and> env_detect example_env [0] = Inl (Error ''InvalidImageFormatException'')
     \<and> DetectCall [0] \<in> set calls \<and> DetectCall [2] \<in> set calls"
proof -
  have kept: "kept_frames (analyzePPEInImage (env_detect example_env)) bufs_bad_frame
       [''frame-001.png'', ''frame-002.png'', ''frame-003.png''] =
     [(''frame-001.png'', PerPersonResults []), (''frame-003.png'', PerPersonResults [])]"
    by (simp add: kept_frames_def List.map_filter_simps analyzePPEInImage_def
        example_env_def bufs_bad_frame_def)
  have bufs: "bufs_bad_frame ''frame-002.png'' = [0]" "bufs_bad_frame ''frame-003.png'' = [2]"
    by (simp_all add: bufs_bad_frame_def)
  have fails: "env_detect example_env [0] = Inl (Error ''InvalidImageFormatException'')"
    by (simp add: example_env_def)
  from frames_survive_detector_failure
    [where analyze = "analyzePPEInImage (env_detect example_env)"
       and detect = "env_detect example_env", OF _ resize_bad]
  obtain ppeData calls where
    run: "analyzePPEInFrames (sharp_on (env_codec example_env) fs_bad_frame)
            (analyzePPEInImage (env_detect example_env)) fs_bad_frame ''/tmp/frames'' =
            Some (Inr ppeData, calls)"
    and res: "ppeData = kept_frames (analyzePPEInImage (env_detect example_env)) bufs_bad_frame
            (png_files fs_bad_frame ''/tmp/frames'')"
    and all: "\<forall>file \<in> set (png_files fs_bad_frame ''/tmp/frames'').
            DetectCall (bufs_bad_frame file) \<in> set calls"
    by blast
  from all have "DetectCall [0] \<in> set calls" "DetectCall [2] \<in> set calls"
    using bufs by (simp_all add: listing_bad)
  with run res kept fails show ?thesis
    by (simp only: listing_bad) blast
qed

text \<open>
  The same at the level of the request: when the token is valid, a file is attached, the
  frames are extracted and every frame is resized, the answer is a success carrying the
  entries of the frames whose detector call did not fail.
\<close>

lemma upload_keeps_going:
  assumes "jwt_verify e (bearer_token (req_authorization req)) = Inr uid"
    and "req_file req = Some f"
    and "outputFolder = path_join (env_tmpdir e) ''frames''"
    and "videoPath = path_join outputFolder ''uploaded_video.mp4''"
    and "extractFrames (env_ffmpeg e) (writeFileSync fs videoPath (file_buffer f))
           videoPath outputFolder = (Inr (), fs2)"
    and "\<forall>file \<in> set (png_files fs2 outputFolder). \<exists>calls.
           resizeAndCompressImage (sharp_on (env_codec e) fs2) (path_join outputFolder file) =
             Some (Inr (bufs file), calls)"
  shows "\<exists>calls. upload e (fs, db) req =
           Some (Responded 200
                   (UploadOk (kept_frames (analyzePPEInImage (env_detect e)) bufs
                                (png_files fs2 outputFolder))),
                 fs2, update_successful db uid, calls)"
proof -
  from loop_all [OF assms(6), of "analyzePPEInImage (env_detect e)" "[]"] obtain calls where
    "analyzePPEInFrames (sharp_on (env_codec e) fs2) (analyzePPEInImage (env_detect e))
       fs2 outputFolder =
     Some (Inr (kept_frames (analyzePPEInImage (env_detect e)) bufs
                  (png_files fs2 outputFolder)), calls)"
    by (auto simp: analyzePPEInFrames_def)
  with assms(1-5) show ?thesis
    by (simp add: upload_def Let_def)
qed

section \<open>Facts about the upload handlers\<close>

text \<open>
  A request without a file, in server.js: the answer is \<^verbatim>\<open>{ success: false, error }\<close>
  with status 401 or 400, the file system and the database are as before, and no call
  was made.
\<close>

lemma upload_without_file:
  "upload e (fs, db) \<lparr>req_authorization = header, req_file = None\<rparr> =
     (case jwt_verify e (bearer_token header) of
        Inl err \<Rightarrow> Some (Responded 401 (Failed ''Invalid token''), fs, db, [])
      | Inr uid \<Rightarrow> Some (Responded 400 (Failed ''No file uploaded''), fs, db, []))"
  by (simp add: upload_def split: sum.splits)

text \<open>
  C4 (an upload request with no file attached is answered \<^verbatim>\<open>{ success: false }\<close> with
  an error, and no pipeline stage runs). In index.js the handler reads
  \<^verbatim>\<open>req.file.filename\<close> before its check and outside its \<^verbatim>\<open>try\<close> block: without a
  file it throws, and sends no response.
\<close>

theorem index_upload_without_file:
  "index_upload e fs \<lparr>req_authorization = header, req_file = None\<rparr> =
     (Unhandled (TypeError ''Cannot read properties of undefined''), fs, [])"
  by (simp add: index_upload_def)

lemma bearer_good: "bearer_token (Some ''Bearer good'') = Some ''good''"
  by (simp add: bearer_token_def nth_opt_def)

lemma frame_paths:
  "frame_path ''/tmp/frames'' (Suc 0) = ''/tmp/frames/frame-001.png''"
  "frame_path ''/tmp/frames'' (Suc (Suc 0)) = ''/tmp/frames/frame-002.png''"
  "frame_path ''/tmp/frames'' (Suc (Suc (Suc 0))) = ''/tmp/frames/frame-003.png''"
  by (simp_all add: frame_path_def pad3_def decimal.simps digit_def)

lemma extract_long:
  "extractFrames frames_of [(''/tmp/frames/uploaded_video.mp4'', [1, 2, 3])]
     ''/tmp/frames/uploaded_video.mp4'' ''/tmp/frames'' = (Inr (), fs_after_long)"
  by (simp add: extractFrames_def frames_of_def frame_paths fs_after_long_def)

lemma extract_short:
  "extractFrames frames_of (writeFileSync fs_after_long ''/tmp/frames/uploaded_video.mp4'' [9])
     ''/tmp/frames/uploaded_video.mp4'' ''/tmp/frames'' = (Inr (), fs_after_short)"
  by (simp add: extractFrames_def frames_of_def frame_paths fs_after_long_def
      fs_after_short_def)

lemma listing:
  "png_files fs_after_long ''/tmp/frames'' = [''frame-001.png'', ''frame-002.png'', ''frame-003.png'']"
  "png_files fs_after_short ''/tmp/frames'' = [''frame-001.png'', ''frame-002.png'', ''frame-003.png'']"
  by (simp_all add: png_files_def readdirSync_def List.map_filter_simps entry_name_def
      endsWith_def fs_after_long_def fs_after_short_def)

lemma analyze_long:
  "analyzePPEInFrames (sharp_on (env_codec example_env) fs_after_long)
     (analyzePPEInImage (env_detect example_env)) fs_after_long ''/tmp/frames'' =
   Some (Inr [(''frame-001.png'', PerPersonResults []),
              (''frame-002.png'', PerPersonResults []),
              (''frame-003.png'', PerPersonResults [])],
         [SharpCall (FromPath ''/tmp/frames/frame-001.png'') 1280 80, DetectCall [1],
          SharpCall (FromPath ''/tmp/frames/frame-002.png'') 1280 80, DetectCall [2],
          SharpCall (FromPath ''/tmp/frames/frame-003.png'') 1280 80, DetectCall [3]])"
  apply (simp only: analyzePPEInFrames_def listing)
  apply (simp add: path_join_def resizeAndCompressImage_def compress_loop_done small_loop
      sharp_on_def fs_after_long_def example_env_def analyzePPEInImage_def)
  done

lemma analyze_short:
  "analyzePPEInFrames (sharp_on (env_codec example_env) fs_after_short)
     (analyzePPEInImage (env_detect example_env)) fs_after_short ''/tmp/frames'' =
   Some (Inr [(''frame-001.png'', PerPersonResults []),
              (''frame-002.png'', PerPersonResults []),
              (''frame-003.png'', PerPersonResults [])],
         [SharpCall (FromPath ''/tmp/frames/frame-001.png'') 1280 80, DetectCall [9],
          SharpCall (FromPath ''/tmp/frames/frame-002.png'') 1280 80, DetectCall [2],
          SharpCall (FromPath ''/tmp/frames/frame-003.png'') 1280 80, DetectCall [3]])"
  apply (simp only: analyzePPEInFrames_def listing)
  apply (simp add: path_join_def resizeAndCompressImage_def compress_loop_done small_loop
      sharp_on_def fs_after_short_def example_env_def analyzePPEInImage_def)
  done

lemma env_fields:
  "env_tmpdir example_env = ''/tmp''"
  "env_ffmpeg example_env = frames_of"
  "jwt_verify example_env (Some ''good'') = Inr 7"
  by (simp_all add: example_env_def)

lemma update_empty: "update_successful empty_db uid = empty_db"
  by (simp add: update_successful_def empty_db_def)

lemma upload_long:
  "upload example_env ([], empty_db) long_request =
     Some (Responded 200
             (UploadOk [(''frame-001.png'', PerPersonResults []),
                        (''frame-002.png'', PerPersonResults []),
                        (''frame-003.png'', PerPersonResults [])]),
           fs_after_long, empty_db,
           [WriteFile ''/tmp/frames/uploaded_video.mp4'',
            FfmpegCall ''/tmp/frames/uploaded_video.mp4'' ''/tmp/frames'',
            SharpCall (FromPath ''/tmp/frames/frame-001.png'') 1280 80, DetectCall [1],
            SharpCall (FromPath ''/tmp/frames/frame-002.png'') 1280 80, DetectCall [2],
            SharpCall (FromPath ''/tmp/frames/frame-003.png'') 1280 80, DetectCall [3]])"
proof -
  have folder: "path_join ''/tmp'' ''frames'' = ''/tmp/frames''"
    "path_join ''/tmp/frames'' ''uploaded_video.mp4'' = ''/tmp/frames/uploaded_video.mp4''"
    by (simp_all add: path_join_def)
  show ?thesis
    by (simp add: upload_def long_request_def bearer_good env_fields folder extract_long
        analyze_long update_empty Let_def)
qed

lemma upload_short:
  "upload example_env (fs_after_long, empty_db) short_request =
     Some (Responded 200
             (UploadOk [(''frame-001.png'', PerPersonResults []),
                        (''frame-002.png'', PerPersonResults []),
                        (''frame-003.png'', PerPersonResults [])]),
           fs_after_short, empty_db,
           [WriteFile ''/tmp/frames/uploaded_video.mp4'',
            FfmpegCall ''/tmp/frames/uploaded_video.mp4'' ''/tmp/frames'',
            SharpCall (FromPath ''/tmp/frames/frame-001.png'') 1280 80, DetectCall [9],
            SharpCall (FromPath ''/tmp/frames/frame-002.png'') 1280 80, DetectCall [2],
            SharpCall (FromPath ''/tmp/frames/frame-003.png'') 1280 80, DetectCall [3]])"
proof -
  have folder: "path_join ''/tmp'' ''frames'' = ''/tmp/frames''"
    "path_join ''/tmp/frames'' ''uploaded_video.mp4'' = ''/tmp/frames/uploaded_video.mp4''"
    by (simp_all add: path_join_def)
  show ?thesis
    by (simp add: upload_def short_request_def bearer_good env_fields folder extract_short
        analyze_short update_empty Let_def)
qed

lemma listing_past_999:
  "png_files [(frame_path ''/tmp/frames'' 999, a), (frame_path ''/tmp/frames'' 1000, b)]
     ''/tmp/frames'' = [''frame-1000.png'', ''frame-999.png'']"
  by (simp add: png_files_def readdirSync_def List.map_filter_simps entry_name_def
      endsWith_def frame_path_def pad3_def decimal.simps digit_def)

text \<open>
  C5 (the number of frame analyses in the aggregate is at most the video's duration in
  seconds, rounded up, and the frame tags increase). In server.js the frames folder is
  the same for every request and is never emptied: after a three-second video, the
  answer to a one-second video, from which the transcoder extracts one frame, carries
  three analyses, two of them of the earlier video's frames.
\<close>

theorem stale_frames_counted:
  "uploads example_env ([], empty_db) [long_request, short_request] =
     Some [Responded 200
             (UploadOk [(''frame-001.png'', PerPersonResults []),
                        (''frame-002.png'', PerPersonResults []),
                        (''frame-003.png'', PerPersonResults [])]),
           Responded 200
             (UploadOk [(''frame-001.png'', PerPersonResults []),
                        (''frame-002.png'', PerPersonResults []),
                        (''frame-003.png'', PerPersonResults [])])]
   \<and> map_option file_buffer (req_file short_request) = Some [9]
   \<and> env_ffmpeg example_env [9] = Inr [[9]]"
  by (simp add: upload_long upload_short)
    (simp add: short_request_def example_env_def frames_of_def)

section \<open>Facts about login\<close>

lemma login_wrong:
  assumes "\<forall>u us. select_users db (req_username r) = Inr (u # us) \<longrightarrow>
             \<not> bcrypt_compare e (req_password r) (password_hash u)"
  shows "login e db r = (invalid_credentials, db)"
    and "auth_login e db r = (invalid_credentials, db)"
  using assms
  by (auto simp: login_def auth_login_def split: sum.splits list.splits)

lemma logins_wrong:
  assumes "\<And>r. r \<in> set reqs \<Longrightarrow> handler db r = (invalid_credentials, db)"
  shows "logins handler db reqs = (map (\<lambda>r. invalid_credentials) reqs, db)"
  using assms by (induction reqs) simp_all

text \<open>
  C6 (a login whose username exists and whose password matches the stored hash is
  answered with a token; wrong passwords, however many, yield no token and no session).
  When the query finds the user and the password matches the hash of the first row found,
  the answer of server.js and of auth.js carries the signed token. When no request of a
  sequence has a password matching the row found for its username, every answer is
  \<^verbatim>\<open>{ error: 'Invalid credentials' }\<close> with status 400 and the database, whose
  \<^verbatim>\<open>Logs\<close> table is the only record of a login, is unchanged.
\<close>

theorem login_token_only_for_matching_password:
  "(select_users db (req_username req) = Inr (u # us) \<longrightarrow>
    bcrypt_compare e (req_password req) (password_hash u) \<longrightarrow>
      fst (login e db req) = Responded 200 (LoginOk (jwt_sign e (user_id u)))
      \<and> fst (auth_login e db req) = Responded 200 (LoginOk (jwt_sign e (user_id u))))
   \<and> ((\<forall>r \<in> set reqs. \<forall>u us. select_users db (req_username r) = Inr (u # us) \<longrightarrow>
          \<not> bcrypt_compare e (req_password r) (password_hash u)) \<longrightarrow>
      logins (login e) db reqs = (map (\<lambda>r. invalid_credentials) reqs, db)
      \<and> logins (auth_login e) db reqs = (map (\<lambda>r. invalid_credentials) reqs, db))"
proof (intro conjI impI)
  assume "select_users db (req_username req) = Inr (u # us)"
    and "bcrypt_compare e (req_password req) (password_hash u)"
  then show "fst (login e db req) = Responded 200 (LoginOk (jwt_sign e (user_id u)))"
    and "fst (auth_login e db req) = Responded 200 (LoginOk (jwt_sign e (user_id u)))"
    by (simp_all add: login_def auth_login_def)
next
  assume wrong: "\<forall>r \<in> set reqs. \<forall>u us. select_users db (req_username r) = Inr (u # us) \<longrightarrow>
          \<not> bcrypt_compare e (req_password r) (password_hash u)"
  show "logins (login e) db reqs = (map (\<lambda>r. invalid_credentials) reqs, db)"
    by (rule logins_wrong) (use wrong in \<open>simp add: login_wrong\<close>)
  show "logins (auth_login e) db reqs = (map (\<lambda>r. invalid_credentials) reqs, db)"
    by (rule logins_wrong) (use wrong in \<open>simp add: login_wrong\<close>)
qed

text \<open>One user, her right password, and three wrong ones.\<close>

theorem login_token_only_for_matching_password_witness:
  "select_users users_db ''alice'' = Inr [alice]
   \<and> bcrypt_compare example_env ''secret'' (password_hash alice)
   \<and> fst (login example_env users_db \<lparr>req_username = ''alice'', req_password = ''secret''\<rparr>) =
       Responded 200 (LoginOk ''token-for-1'')
   \<and> fst (auth_login example_env users_db \<lparr>req_username = ''alice'', req_password = ''secret''\<rparr>) =
       Responded 200 (LoginOk ''token-for-1'')
   \<and> logins (login example_env) users_db wrong_attempts =
       ([invalid_credentials, invalid_credentials, invalid_credentials], users_db)
   \<and> logins (auth_login example_env) users_db wrong_attempts =
       ([invalid_credentials, invalid_credentials, invalid_credentials], users_db)"
proof -
  have sel: "select_users users_db ''alice'' = Inr [alice]"
    by (simp add: select_users_def users_db_def alice_def)
  have ok: "bcrypt_compare example_env ''secret'' (password_hash alice)"
    by (simp add: example_env_def alice_def)
  have tok: "jwt_sign example_env (user_id alice) = ''token-for-1''"
    by (simp add: example_env_def alice_def decimal.simps digit_def)
  have wrong: "\<forall>r \<in> set wrong_attempts. \<forall>u us.
      select_users users_db (req_username r) = Inr (u # us) \<longrightarrow>
        \<not> bcrypt_compare example_env (req_password r) (password_hash u)"
    by (simp add: wrong_attempts_def sel) (simp add: example_env_def alice_def)
  have len: "map (\<lambda>r. invalid_credentials) wrong_attempts =
      [invalid_credentials, invalid_credentials, invalid_credentials]"
    by (simp add: wrong_attempts_def)
  from login_token_only_for_matching_password
    [of users_db "\<lparr>req_username = ''alice'', req_password = ''secret''\<rparr>" alice "[]"
        example_env wrong_attempts]
    sel ok tok wrong len
  show ?thesis by simp
qed

end
